theory Spec2Isabelle
  imports Main
begin

section \<open>The site-verification domain resource: data model\<close>

text \<open>
  The development follows \<^verbatim>\<open>internal/provider/domain_resource.go\<close> in its version with
  the retry loops (the one that declares \<^verbatim>\<open>errTokenNotFound\<close>, \<^verbatim>\<open>errTokenExists\<close>,
  \<^verbatim>\<open>sleepSeconds\<close> and \<^verbatim>\<open>checkErr\<close>), and takes the default timeout of the data
  source \<^verbatim>\<open>DomainDataSource\<close>.
\<close>

subsection \<open>Durations and package-level values\<close>

text \<open>A \<^verbatim>\<open>time.Duration\<close> counts nanoseconds.\<close>

type_synonym Duration = int

definition Second :: Duration where
  "Second = 1000000000"

definition sleepSeconds :: Duration where
  "sleepSeconds = 60 * Second"

definition errTokenNotFound :: string where
  "errTokenNotFound = ''The necessary verification token could not be found on your site.''"

definition errTokenExists :: string where
  "errTokenExists = ''You cannot unverify your ownership of this site until your verification token (meta tag, HTML file, Google Analytics tracking code, Google Tag Manager container code, or DNS record) has been removed.''"

definition resourceType :: string where
  "resourceType = ''INET_DOMAIN''"

definition verificationMethod :: string where
  "verificationMethod = ''DNS_TXT''"

subsection \<open>Go errors\<close>

text \<open>
  An \<^verbatim>\<open>error\<close> value is a chain: a \<^verbatim>\<open>*googleapi.Error\<close> with its \<^verbatim>\<open>Code\<close> and
  \<^verbatim>\<open>Message\<close>, one of the two context errors, a plain error with its text, or an error
  that wraps another one (\<^verbatim>\<open>fmt.Errorf\<close> with \<^verbatim>\<open>%w\<close>, \<^verbatim>\<open>*url.Error\<close>);
  \<open>EscapeError\<close> is the \<^verbatim>\<open>url.EscapeError\<close> of a malformed percent-escape.
\<close>

datatype error =
    GoogleApiError int string
  | ContextCanceled
  | ContextDeadlineExceeded
  | ErrorString string
  | EscapeError string
  | Wrap string error

text \<open>The chain that \<^verbatim>\<open>errors.As\<close> walks through \<^verbatim>\<open>Unwrap\<close>, outermost first.\<close>

fun chain :: "error \<Rightarrow> error list" where
  "chain (Wrap s e) = Wrap s e # chain e"
| "chain e = [e]"

text \<open>
  \<^verbatim>\<open>errors.As(err, &apierr)\<close> with \<^verbatim>\<open>apierr\<close> a \<^verbatim>\<open>*googleapi.Error\<close>: the first
  API error of the chain, as its code and message.
\<close>

fun errors_As :: "error \<Rightarrow> (int \<times> string) option" where
  "errors_As (GoogleApiError code message) = Some (code, message)"
| "errors_As (Wrap s e) = errors_As e"
| "errors_As e = None"

subsection \<open>Strings\<close>

fun strings_HasPrefix :: "string \<Rightarrow> string \<Rightarrow> bool" where
  "strings_HasPrefix s [] = True"
| "strings_HasPrefix [] (p # ps) = False"
| "strings_HasPrefix (c # cs) (p # ps) = (c = p \<and> strings_HasPrefix cs ps)"

fun strings_Contains :: "string \<Rightarrow> string \<Rightarrow> bool" where
  "strings_Contains [] substr = (substr = [])"
| "strings_Contains (c # cs) substr =
     (strings_HasPrefix (c # cs) substr \<or> strings_Contains cs substr)"

definition strings_TrimPrefix :: "string \<Rightarrow> string \<Rightarrow> string" where
  "strings_TrimPrefix s p = (if strings_HasPrefix s p then drop (length p) s else s)"

subsection \<open>Classifying an error as transient\<close>

definition checkErr :: "error \<Rightarrow> string \<Rightarrow> bool" where
  "checkErr err msg =
     (case errors_As err of
        None \<Rightarrow> False
      | Some (code, message) \<Rightarrow> code = 400 \<and> strings_Contains message msg)"

subsection \<open>Decoding the identifier: \<^verbatim>\<open>url.QueryUnescape\<close>\<close>

text \<open>
  \<^verbatim>\<open>url.QueryUnescape(s)\<close> is \<^verbatim>\<open>unescape(s, encodeQueryComponent)\<close> of the Go library
  \<^verbatim>\<open>net/url\<close>, and \<^verbatim>\<open>url.PathUnescape(s)\<close> is \<^verbatim>\<open>unescape(s, encodePathSegment)\<close>.
  Only these two modes are modelled. A Go string is a sequence of bytes, as a
  \<^typ>\<open>string\<close> is a list of 8-bit characters.
\<close>

datatype encoding = encodePathSegment | encodeQueryComponent

definition ishex :: "char \<Rightarrow> bool" where
  "ishex c =
     (let n = (of_char c :: nat)
      in (48 \<le> n \<and> n \<le> 57) \<or> (97 \<le> n \<and> n \<le> 102) \<or> (65 \<le> n \<and> n \<le> 70))"

definition unhex :: "char \<Rightarrow> nat" where
  "unhex c =
     (let n = (of_char c :: nat)
      in if 48 \<le> n \<and> n \<le> 57 then n - 48
         else if 97 \<le> n \<and> n \<le> 102 then n - 97 + 10
         else if 65 \<le> n \<and> n \<le> 70 then n - 65 + 10
         else 0)"

text \<open>
  The first loop of \<^verbatim>\<open>unescape\<close>: every \<^verbatim>\<open>%\<close> must be followed by two hexadecimal
  digits; otherwise the result is the \<^verbatim>\<open>EscapeError\<close> of the (at most three) bytes from
  the \<^verbatim>\<open>%\<close> on.
\<close>

fun unescape_scan :: "string \<Rightarrow> string option" where
  "unescape_scan [] = None"
| "unescape_scan (c # s) =
     (if c = CHR ''%'' then
        (case s of
           a # b # rest \<Rightarrow>
             if ishex a \<and> ishex b then unescape_scan rest else Some (take 3 (c # s))
         | _ \<Rightarrow> Some (take 3 (c # s)))
      else unescape_scan s)"

text \<open>
  The second loop: it writes the byte of each escape, a space for \<^verbatim>\<open>+\<close> in the query
  mode, and every other byte as it is. It runs only on a string that passed the first
  loop, so the branch of a \<^verbatim>\<open>%\<close> without two bytes after it is never taken.
\<close>

fun unescape_write :: "string \<Rightarrow> encoding \<Rightarrow> string" where
  "unescape_write [] mode = []"
| "unescape_write (c # s) mode =
     (if c = CHR ''%'' then
        (case s of
           a # b # rest \<Rightarrow> char_of (unhex a * 16 + unhex b) # unescape_write rest mode
         | _ \<Rightarrow> [])
      else if c = CHR ''+'' then
        (if mode = encodeQueryComponent then CHR '' '' else CHR ''+'') # unescape_write s mode
      else c # unescape_write s mode)"

definition unescape :: "string \<Rightarrow> encoding \<Rightarrow> error + string" where
  "unescape s mode =
     (case unescape_scan s of
        Some e \<Rightarrow> Inl (EscapeError e)
      | None \<Rightarrow>
          if CHR ''%'' \<notin> set s \<and> \<not> (mode = encodeQueryComponent \<and> CHR ''+'' \<in> set s)
          then Inr s
          else Inr (unescape_write s mode))"

definition url_QueryUnescape :: "string \<Rightarrow> error + string" where
  "url_QueryUnescape s = unescape s encodeQueryComponent"

definition url_PathUnescape :: "string \<Rightarrow> error + string" where
  "url_PathUnescape s = unescape s encodePathSegment"

text \<open>
  For stating what the decoding does: a string is well escaped when each \<^verbatim>\<open>%\<close> in
  it is followed by two hexadecimal digits, and \<open>plus_to_space\<close> puts a space for each
  \<^verbatim>\<open>+\<close>.
\<close>

definition plus_to_space :: "string \<Rightarrow> string" where
  "plus_to_space s = map (\<lambda>c. if c = CHR ''+'' then CHR '' '' else c) s"

definition well_escaped :: "string \<Rightarrow> bool" where
  "well_escaped s =
     (\<forall>i < length s. s ! i = CHR ''%'' \<longrightarrow>
        i + 2 < length s \<and> ishex (s ! (i + 1)) \<and> ishex (s ! (i + 2)))"

subsection \<open>The resource model, diagnostics and responses\<close>

text \<open>
  The \<^verbatim>\<open>timeouts\<close> block holds an optional duration for each operation (a duration
  string that does not parse counts as absent, as in the timeouts library), and
  \<^verbatim>\<open>timeouts.Create\<close>, \<^verbatim>\<open>timeouts.Read\<close> and \<^verbatim>\<open>timeouts.Delete\<close> return the
  configured duration, or the default they are given.
\<close>

record timeouts_Value =
  create_timeout :: "Duration option"
  read_timeout :: "Duration option"
  delete_timeout :: "Duration option"

definition timeouts_Create :: "timeouts_Value \<Rightarrow> Duration \<Rightarrow> Duration" where
  "timeouts_Create obj def = (case create_timeout obj of None \<Rightarrow> def | Some d \<Rightarrow> d)"

definition timeouts_Read :: "timeouts_Value \<Rightarrow> Duration \<Rightarrow> Duration" where
  "timeouts_Read obj def = (case read_timeout obj of None \<Rightarrow> def | Some d \<Rightarrow> d)"

definition timeouts_Delete :: "timeouts_Value \<Rightarrow> Duration \<Rightarrow> Duration" where
  "timeouts_Delete obj def = (case delete_timeout obj of None \<Rightarrow> def | Some d \<Rightarrow> d)"

record DomainResourceModel =
  Domain' :: string
  Token :: string
  Id' :: string
  Timeouts :: timeouts_Value

text \<open>
  A diagnostic is what \<^verbatim>\<open>resp.Diagnostics.AddError(summary, fmt.Sprintf(format, args))\<close>
  records: the summary, the format and its arguments.
\<close>

datatype arg = Str string | Err error

datatype diagnostic = AddError string string "arg list"

text \<open>
  A response carries the diagnostics and the state: \<open>None\<close> when
  \<^verbatim>\<open>resp.State.Set\<close> was not called, \<open>Some data\<close> after \<^verbatim>\<open>resp.State.Set(ctx, &data)\<close>.
\<close>

record response =
  Diagnostics :: "diagnostic list"
  State :: "DomainResourceModel option"

subsection \<open>Time, contexts and the API client\<close>

text \<open>
  The effects of an operation are threaded through a \<open>world\<close>: the clock, the number of
  API calls issued so far and the number of backoff sleeps that ran to their end.
\<close>

record world =
  clock :: Duration
  calls :: nat
  sleeps :: nat

text \<open>
  \<^verbatim>\<open>context.WithTimeout(ctx, timeout)\<close>: a context that is done from \<open>deadline\<close> on.
  The incoming context is taken to have no deadline of its own and not to be cancelled.
\<close>

record Context =
  deadline :: Duration

definition context_WithTimeout :: "world \<Rightarrow> Duration \<Rightarrow> Context" where
  "context_WithTimeout w timeout = \<lparr>deadline = clock w + timeout\<rparr>"

text \<open>
  The API client \<^verbatim>\<open>r.srv.WebResource\<close>, as a stub: what each call answers may depend on
  the context it is given (\<^verbatim>\<open>.Context(ctx)\<close>), on the world it is made in (so on how many
  calls came before, and on the time) and on its arguments; a call itself takes no time.
  \<open>Insert\<close> receives the verification method, the site identifier and the site type and
  answers an error or \<^verbatim>\<open>result.Id\<close>;
  \<open>GetToken\<close> receives the site identifier, the site type and the verification method
  and answers an error or \<^verbatim>\<open>result.Token\<close>.
\<close>

record Service =
  Insert :: "Context \<Rightarrow> world \<Rightarrow> string \<Rightarrow> string \<Rightarrow> string \<Rightarrow> error + string"
  Get :: "Context \<Rightarrow> world \<Rightarrow> string \<Rightarrow> error option"
  Delete :: "Context \<Rightarrow> world \<Rightarrow> string \<Rightarrow> error option"
  GetToken :: "Context \<Rightarrow> world \<Rightarrow> string \<Rightarrow> string \<Rightarrow> string \<Rightarrow> error + string"

definition called :: "world \<Rightarrow> world" where
  "called w = w\<lparr>calls := calls w + 1\<rparr>"

text \<open>
  The statement
  \<^verbatim>\<open>select { case <-ctx.Done(): return; case <-time.After(sleepSeconds): }\<close>.
  The context is done at its deadline (at once if that has passed), the timer fires
  \<open>sleepSeconds\<close> from now, and the earlier of the two is taken. When both fall on the
  same instant either may be taken: \<open>tie\<close> tells whether it is \<^verbatim>\<open>ctx.Done()\<close>.
\<close>

datatype selected = Done | After

definition select_Done_After :: "bool \<Rightarrow> Context \<Rightarrow> world \<Rightarrow> selected \<times> world" where
  "select_Done_After tie ctx w =
     (let done_at = max (deadline ctx) (clock w);
          after_at = clock w + sleepSeconds
      in if done_at < after_at \<or> (done_at = after_at \<and> tie)
         then (Done, w\<lparr>clock := done_at\<rparr>)
         else (After, w\<lparr>clock := after_at, sleeps := sleeps w + 1\<rparr>))"

subsection \<open>Create\<close>

text \<open>
  The loop of \<^verbatim>\<open>DomainResource.Create\<close>, from the world \<open>w\<close> on. A return
  inside the loop leaves the state unset; the \<^verbatim>\<open>break\<close> is followed by
  \<^verbatim>\<open>resp.State.Set(ctx, &data)\<close>.
\<close>

function create_loop ::
  "Service \<Rightarrow> bool \<Rightarrow> Context \<Rightarrow> DomainResourceModel \<Rightarrow> world \<Rightarrow> response \<times> world"
where
  "create_loop srv tie ctx data w =
     (case Insert srv ctx w verificationMethod (Domain' data) resourceType of
        Inl err \<Rightarrow>
          if checkErr err errTokenNotFound then
            (case select_Done_After tie ctx (called w) of
               (Done, w') \<Rightarrow> (\<lparr>Diagnostics = [], State = None\<rparr>, w')
             | (After, w') \<Rightarrow> create_loop srv tie ctx data w')
          else
            (\<lparr>Diagnostics =
                 [AddError ''Client Error''
                    ''Unable to create verification, got error: %s'' [Err err]],
               State = None\<rparr>, called w)
      | Inr result_Id \<Rightarrow>
          (case url_QueryUnescape result_Id of
             Inl err \<Rightarrow>
               (\<lparr>Diagnostics =
                    [AddError ''Client Error''
                       ''failed to urldecode id %s, %s'' [Str result_Id, Err err]],
                  State = None\<rparr>, called w)
           | Inr id' \<Rightarrow>
               (\<lparr>Diagnostics = [], State = Some (data\<lparr>Id' := id'\<rparr>)\<rparr>, called w)))"
  by pat_completeness auto
termination
proof (relation "measure (\<lambda>(srv, tie, ctx, data, w). nat (deadline ctx - clock w))")
  show "wf (measure (\<lambda>(srv, tie, ctx, data, w). nat (deadline ctx - clock w)))"
    by simp
next
  fix srv tie ctx data w err x w'
  assume "(x, w') = select_Done_After tie ctx (called w)" and "x = After"
  then have "select_Done_After tie ctx (called w) = (After, w')"
    by simp
  then have "clock w' = clock w + sleepSeconds" and "clock w + sleepSeconds \<le> deadline ctx"
    by (auto simp: select_Done_After_def called_def Let_def sleepSeconds_def Second_def
        split: if_splits)
  then show "((srv, tie, ctx, data, w'), (srv, tie, ctx, data, w))
      \<in> measure (\<lambda>(srv, tie, ctx, data, w). nat (deadline ctx - clock w))"
    by (simp add: sleepSeconds_def Second_def)
qed

text \<open>
  \<^verbatim>\<open>DomainResource.Create\<close>. \<open>plan\<close> is what \<^verbatim>\<open>req.Plan.Get(ctx, &data)\<close> gave: its
  error diagnostics, or the model.
\<close>

definition createTimeout :: "DomainResourceModel \<Rightarrow> Duration" where
  "createTimeout data = timeouts_Create (Timeouts data) (sleepSeconds * 5)"

definition DomainResource_Create ::
  "Service \<Rightarrow> bool \<Rightarrow> diagnostic list + DomainResourceModel \<Rightarrow> world \<Rightarrow> response \<times> world"
where
  "DomainResource_Create srv tie plan w =
     (case plan of
        Inl ds \<Rightarrow> (\<lparr>Diagnostics = ds, State = None\<rparr>, w)
      | Inr data \<Rightarrow>
          create_loop srv tie (context_WithTimeout w (createTimeout data)) data w)"

subsection \<open>Read and Update\<close>

definition readTimeout :: "DomainResourceModel \<Rightarrow> Duration" where
  "readTimeout data = timeouts_Read (Timeouts data) (sleepSeconds * 5)"

definition DomainResource_Read ::
  "Service \<Rightarrow> diagnostic list + DomainResourceModel \<Rightarrow> world \<Rightarrow> response \<times> world"
where
  "DomainResource_Read srv prior w =
     (case prior of
        Inl ds \<Rightarrow> (\<lparr>Diagnostics = ds, State = None\<rparr>, w)
      | Inr data \<Rightarrow>
          (case Get srv (context_WithTimeout w (readTimeout data)) w (Id' data) of
             Some err \<Rightarrow>
               (\<lparr>Diagnostics =
                    [AddError ''Client Error''
                       ''Unable to read verification, got error: %s'' [Err err]],
                  State = None\<rparr>, called w)
           | None \<Rightarrow> (\<lparr>Diagnostics = [], State = Some data\<rparr>, called w)))"

definition DomainResource_Update :: "Service \<Rightarrow> world \<Rightarrow> response \<times> world" where
  "DomainResource_Update srv w = (\<lparr>Diagnostics = [], State = None\<rparr>, w)"


subsection \<open>Delete\<close>

function delete_loop ::
  "Service \<Rightarrow> bool \<Rightarrow> Context \<Rightarrow> DomainResourceModel \<Rightarrow> world \<Rightarrow> response \<times> world"
where
  "delete_loop srv tie ctx data w =
     (case Delete srv ctx w (Id' data) of
        Some err \<Rightarrow>
          if checkErr err errTokenExists then
            (case select_Done_After tie ctx (called w) of
               (Done, w') \<Rightarrow> (\<lparr>Diagnostics = [], State = None\<rparr>, w')
             | (After, w') \<Rightarrow> delete_loop srv tie ctx data w')
          else
            (\<lparr>Diagnostics =
                 [AddError ''Client Error''
                    ''Unable to delete verification, got error: %s'' [Err err]],
               State = None\<rparr>, called w)
      | None \<Rightarrow> (\<lparr>Diagnostics = [], State = None\<rparr>, called w))"
  by pat_completeness auto
termination
proof (relation "measure (\<lambda>(srv, tie, ctx, data, w). nat (deadline ctx - clock w))")
  show "wf (measure (\<lambda>(srv, tie, ctx, data, w). nat (deadline ctx - clock w)))"
    by simp
next
  fix srv tie ctx data w err x w'
  assume "(x, w') = select_Done_After tie ctx (called w)" and "x = After"
  then have "select_Done_After tie ctx (called w) = (After, w')"
    by simp
  then have "clock w' = clock w + sleepSeconds" and "clock w + sleepSeconds \<le> deadline ctx"
    by (auto simp: select_Done_After_def called_def Let_def sleepSeconds_def Second_def
        split: if_splits)
  then show "((srv, tie, ctx, data, w'), (srv, tie, ctx, data, w))
      \<in> measure (\<lambda>(srv, tie, ctx, data, w). nat (deadline ctx - clock w))"
    by (simp add: sleepSeconds_def Second_def)
qed

definition deleteTimeout :: "DomainResourceModel \<Rightarrow> Duration" where
  "deleteTimeout data = timeouts_Delete (Timeouts data) (sleepSeconds * 5)"

definition DomainResource_Delete ::
  "Service \<Rightarrow> bool \<Rightarrow> diagnostic list + DomainResourceModel \<Rightarrow> world \<Rightarrow> response \<times> world"
where
  "DomainResource_Delete srv tie prior w =
     (case prior of
        Inl ds \<Rightarrow> (\<lparr>Diagnostics = ds, State = None\<rparr>, w)
      | Inr data \<Rightarrow>
          delete_loop srv tie (context_WithTimeout w (deleteTimeout data)) data w)"

subsection \<open>ImportState\<close>

text \<open>
  \<^verbatim>\<open>DomainResource.ImportState\<close> on \<^verbatim>\<open>req.ID\<close>. The model it stores is built from its
  three strings alone; its \<^verbatim>\<open>Timeouts\<close> field keeps Go's zero value.
\<close>

definition DomainResource_ImportState ::
  "Service \<Rightarrow> Context \<Rightarrow> string \<Rightarrow> world \<Rightarrow> response \<times> world"
where
  "DomainResource_ImportState srv ctx req_ID w =
     (case Get srv ctx w req_ID of
        Some err \<Rightarrow>
          (\<lparr>Diagnostics =
               [AddError ''Client Error''
                  ''Unable to import verification, got error: %s'' [Err err]],
             State = None\<rparr>, called w)
      | None \<Rightarrow>
          (let domain = strings_TrimPrefix req_ID ''dns://''
           in case GetToken srv ctx (called w) domain resourceType verificationMethod of
                Inl err \<Rightarrow>
                  (\<lparr>Diagnostics =
                       [AddError ''Client Error''
                          ''Unable to import verification, got error: %s'' [Err err]],
                     State = None\<rparr>, called (called w))
              | Inr result_Token \<Rightarrow>
                  (\<lparr>Diagnostics = [],
                     State = Some \<lparr>Domain' = domain, Token = result_Token, Id' = req_ID,
                       Timeouts = \<lparr>create_timeout = None, read_timeout = None,
                         delete_timeout = None\<rparr>\<rparr>\<rparr>,
                   called (called w))))"

subsection \<open>Example inputs\<close>

text \<open>
  The two transient errors as the remote service sends them, a \<^verbatim>\<open>timeouts\<close> block without
  overrides and one with 30 seconds for create and delete, a model with a given block, a context
  with its deadline at 300 seconds, a starting world, and a client stub whose first \<open>N\<close>
  calls of \<open>Insert\<close> and \<open>Delete\<close> answer \<open>err\<close>, after which \<open>Insert\<close> answers
  \<open>result_Id\<close> and \<open>Delete\<close> succeeds; its \<open>Get\<close> succeeds but for the identifier
  \<^verbatim>\<open>unknown\<close>, and its \<open>GetToken\<close> knows the token of \<^verbatim>\<open>example.com\<close> only.
\<close>

definition TokenNotFoundError :: error where
  "TokenNotFoundError = GoogleApiError 400 errTokenNotFound"

definition TokenStillPresentError :: error where
  "TokenStillPresentError = GoogleApiError 400 errTokenExists"

definition no_timeouts :: timeouts_Value where
  "no_timeouts = \<lparr>create_timeout = None, read_timeout = None, delete_timeout = None\<rparr>"

definition short_timeouts :: timeouts_Value where
  "short_timeouts =
     \<lparr>create_timeout = Some (30 * Second), read_timeout = None,
      delete_timeout = Some (30 * Second)\<rparr>"

definition example_model :: "timeouts_Value \<Rightarrow> DomainResourceModel" where
  "example_model t =
     \<lparr>Domain' = ''example.com'', Token = ''google-site-verification=xyz'', Id' = [],
      Timeouts = t\<rparr>"

definition context0 :: Context where
  "context0 = \<lparr>deadline = 300 * Second\<rparr>"

definition world0 :: world where
  "world0 = \<lparr>clock = 0, calls = 0, sleeps = 0\<rparr>"

definition stub_Service :: "nat \<Rightarrow> error \<Rightarrow> string \<Rightarrow> Service" where
  "stub_Service N err result_Id =
     \<lparr>Insert = (\<lambda>ctx w method identifier type. if calls w < N then Inl err else Inr result_Id),
      Get = (\<lambda>ctx w id'. if id' = ''unknown'' then Some (GoogleApiError 404 ''Not Found'') else None),
      Delete = (\<lambda>ctx w id'. if calls w < N then Some err else None),
      GetToken = (\<lambda>ctx w identifier type method.
        if identifier = ''example.com'' then Inr ''abc123''
        else Inl (GoogleApiError 404 ''Not Found''))\<rparr>"

section \<open>Properties\<close>

subsection \<open>Strings\<close>

lemma strings_HasPrefix_iff: "strings_HasPrefix s p \<longleftrightarrow> (\<exists>t. s = p @ t)"
  by (induction s p rule: strings_HasPrefix.induct) auto

lemma strings_Contains_iff: "strings_Contains s sub \<longleftrightarrow> (\<exists>u t. s = u @ sub @ t)"
proof (induction s)
  case Nil
  then show ?case by auto
next
  case (Cons c cs)
  show ?case
  proof
    assume "strings_Contains (c # cs) sub"
    then consider "strings_HasPrefix (c # cs) sub" | "strings_Contains cs sub"
      by auto
    then show "\<exists>u t. c # cs = u @ sub @ t"
    proof cases
      case 1
      then obtain t where "c # cs = sub @ t"
        by (auto simp: strings_HasPrefix_iff)
      then have "c # cs = [] @ sub @ t" by simp
      then show ?thesis by blast
    next
      case 2
      then obtain u t where "cs = u @ sub @ t"
        using Cons.IH by auto
      then have "c # cs = (c # u) @ sub @ t" by simp
      then show ?thesis by blast
    qed
  next
    assume "\<exists>u t. c # cs = u @ sub @ t"
    then obtain u t where ut: "c # cs = u @ sub @ t" by blast
    show "strings_Contains (c # cs) sub"
    proof (cases u)
      case Nil
      with ut have "strings_HasPrefix (c # cs) sub"
        by (auto simp: strings_HasPrefix_iff)
      then show ?thesis by simp
    next
      case (Cons a u')
      with ut have "cs = u' @ sub @ t" by simp
      then have "strings_Contains cs sub"
        using Cons.IH by blast
      then show ?thesis by simp
    qed
  qed
qed

lemma strings_Contains_self: "strings_Contains s s"
proof -
  have "s = [] @ s @ []" by simp
  then show ?thesis unfolding strings_Contains_iff by blast
qed

subsection \<open>The select statement and one turn of the loops\<close>

declare create_loop.simps [simp del] delete_loop.simps [simp del]

lemma sleepSeconds_pos: "0 < sleepSeconds"
  by (simp add: sleepSeconds_def Second_def)

lemma select_After:
  "clock w + sleepSeconds < deadline ctx \<Longrightarrow>
   select_Done_After tie ctx w = (After, w\<lparr>clock := clock w + sleepSeconds, sleeps := sleeps w + 1\<rparr>)"
  by (simp add: select_Done_After_def Let_def max_def)

lemma select_Done:
  "deadline ctx < clock w + sleepSeconds \<Longrightarrow>
   select_Done_After tie ctx w = (Done, w\<lparr>clock := max (deadline ctx) (clock w)\<rparr>)"
  using sleepSeconds_pos by (simp add: select_Done_After_def Let_def max_def)

lemma select_cases:
  fixes w :: world
  shows "(select_Done_After tie ctx w = (Done, w\<lparr>clock := max (deadline ctx) (clock w)\<rparr>)
            \<and> deadline ctx \<le> clock w + sleepSeconds)
       \<or> (select_Done_After tie ctx w =
              (After, w\<lparr>clock := clock w + sleepSeconds, sleeps := sleeps w + 1\<rparr>)
            \<and> clock w + sleepSeconds \<le> deadline ctx)"
proof -
  consider "deadline ctx < clock w + sleepSeconds"
    | "deadline ctx = clock w + sleepSeconds" | "clock w + sleepSeconds < deadline ctx"
    by linarith
  then show ?thesis
  proof cases
    case 1
    then show ?thesis by (simp add: select_Done)
  next
    case 2
    then show ?thesis
      using sleepSeconds_pos by (cases tie) (simp_all add: select_Done_After_def Let_def max_def)
  next
    case 3
    then show ?thesis by (simp add: select_After)
  qed
qed

lemma called_simps [simp]:
  "clock (called w) = clock w" "calls (called w) = calls w + 1" "sleeps (called w) = sleeps w"
  by (simp_all add: called_def)

lemma create_loop_permanent:
  "Insert srv ctx w verificationMethod (Domain' data) resourceType = Inl err \<Longrightarrow>
   \<not> checkErr err errTokenNotFound \<Longrightarrow>
   create_loop srv tie ctx data w =
     (\<lparr>Diagnostics = [AddError ''Client Error''
          ''Unable to create verification, got error: %s'' [Err err]], State = None\<rparr>, called w)"
  by (simp add: create_loop.simps)

lemma create_loop_transient:
  "Insert srv ctx w verificationMethod (Domain' data) resourceType = Inl err \<Longrightarrow>
   checkErr err errTokenNotFound \<Longrightarrow>
   create_loop srv tie ctx data w =
     (case select_Done_After tie ctx (called w) of
        (Done, w') \<Rightarrow> (\<lparr>Diagnostics = [], State = None\<rparr>, w')
      | (After, w') \<Rightarrow> create_loop srv tie ctx data w')"
  by (subst create_loop.simps) simp

lemma create_loop_inserted:
  "Insert srv ctx w verificationMethod (Domain' data) resourceType = Inr rid \<Longrightarrow>
   create_loop srv tie ctx data w =
     (case url_QueryUnescape rid of
        Inl err \<Rightarrow>
          (\<lparr>Diagnostics = [AddError ''Client Error''
               ''failed to urldecode id %s, %s'' [Str rid, Err err]], State = None\<rparr>, called w)
      | Inr id' \<Rightarrow> (\<lparr>Diagnostics = [], State = Some (data\<lparr>Id' := id'\<rparr>)\<rparr>, called w))"
  by (subst create_loop.simps) simp

lemma delete_loop_none:
  "Delete srv ctx w (Id' data) = None \<Longrightarrow>
   delete_loop srv tie ctx data w = (\<lparr>Diagnostics = [], State = None\<rparr>, called w)"
  by (simp add: delete_loop.simps)

lemma delete_loop_permanent:
  "Delete srv ctx w (Id' data) = Some err \<Longrightarrow> \<not> checkErr err errTokenExists \<Longrightarrow>
   delete_loop srv tie ctx data w =
     (\<lparr>Diagnostics = [AddError ''Client Error''
          ''Unable to delete verification, got error: %s'' [Err err]], State = None\<rparr>, called w)"
  by (simp add: delete_loop.simps)

lemma delete_loop_transient:
  "Delete srv ctx w (Id' data) = Some err \<Longrightarrow> checkErr err errTokenExists \<Longrightarrow>
   delete_loop srv tie ctx data w =
     (case select_Done_After tie ctx (called w) of
        (Done, w') \<Rightarrow> (\<lparr>Diagnostics = [], State = None\<rparr>, w')
      | (After, w') \<Rightarrow> delete_loop srv tie ctx data w')"
  by (subst delete_loop.simps) simp

text \<open>After \<open>N\<close> transient answers with room for \<open>N\<close> sleeps, the loop stands \<open>N\<close> sleeps later.\<close>

lemma create_loop_retries:
  assumes "\<And>w' :: world. calls w \<le> calls w' \<Longrightarrow> calls w' < calls w + N \<Longrightarrow>
             \<exists>err. Insert srv ctx w' verificationMethod (Domain' data) resourceType = Inl err
               \<and> checkErr err errTokenNotFound"
    and "clock w + int N * sleepSeconds < deadline ctx"
  shows "create_loop srv tie ctx data w =
     create_loop srv tie ctx data
       (w\<lparr>clock := clock w + int N * sleepSeconds, calls := calls w + N, sleeps := sleeps w + N\<rparr>)"
  using assms
proof (induction N arbitrary: w)
  case 0
  then show ?case by simp
next
  case (Suc N)
  let ?w1 = "w\<lparr>clock := clock w + sleepSeconds, calls := calls w + 1, sleeps := sleeps w + 1\<rparr>"
  from Suc.prems(1)[of w] obtain err
    where err: "Insert srv ctx w verificationMethod (Domain' data) resourceType = Inl err"
      "checkErr err errTokenNotFound"
    by auto
  have "clock w + sleepSeconds < deadline ctx"
  proof -
    have "0 \<le> int N * sleepSeconds" using sleepSeconds_pos by simp
    then show ?thesis using Suc.prems(2) by (simp add: algebra_simps)
  qed
  then have sel: "select_Done_After tie ctx (called w) = (After, ?w1)"
    by (simp add: select_After called_def)
  have step: "create_loop srv tie ctx data w = create_loop srv tie ctx data ?w1"
    by (simp add: create_loop_transient[OF err] sel)
  have "create_loop srv tie ctx data ?w1 =
     create_loop srv tie ctx data
       (?w1\<lparr>clock := clock ?w1 + int N * sleepSeconds, calls := calls ?w1 + N, sleeps := sleeps ?w1 + N\<rparr>)"
  proof (rule Suc.IH)
    fix w' :: world assume "calls ?w1 \<le> calls w'" "calls w' < calls ?w1 + N"
    then show "\<exists>err. Insert srv ctx w' verificationMethod (Domain' data) resourceType = Inl err
               \<and> checkErr err errTokenNotFound"
      using Suc.prems(1)[of w'] by simp
  next
    show "clock ?w1 + int N * sleepSeconds < deadline ctx"
      using Suc.prems(2) by (simp add: algebra_simps)
  qed
  then show ?case using step by (simp add: algebra_simps)
qed


lemma create_loop_success_only:
  "State (fst (create_loop srv tie ctx data w)) = Some s \<Longrightarrow>
   \<exists>w' rid id'. Insert srv ctx w' verificationMethod (Domain' data) resourceType = Inr rid
     \<and> url_QueryUnescape rid = Inr id' \<and> s = data\<lparr>Id' := id'\<rparr>
     \<and> create_loop srv tie ctx data w = (\<lparr>Diagnostics = [], State = Some s\<rparr>, called w')"
proof (induction srv tie ctx data w rule: create_loop.induct)
  case (1 srv tie ctx data w)
  show ?case
  proof (cases "Insert srv ctx w verificationMethod (Domain' data) resourceType")
    case (Inr rid)
    with "1.prems" show ?thesis
      by (auto simp: create_loop_inserted split: sum.splits)
  next
    case (Inl err)
    show ?thesis
    proof (cases "checkErr err errTokenNotFound")
      case False
      with Inl "1.prems" show ?thesis
        by (simp add: create_loop_permanent)
    next
      case True
      obtain x w' where sel: "select_Done_After tie ctx (called w) = (x, w')"
        by (cases "select_Done_After tie ctx (called w)")
      show ?thesis
      proof (cases x)
        case Done
        with Inl True sel "1.prems" show ?thesis
          by (simp add: create_loop_transient)
      next
        case After
        with Inl True sel have eq: "create_loop srv tie ctx data w = create_loop srv tie ctx data w'"
          by (simp add: create_loop_transient)
        with "1.prems" have "State (fst (create_loop srv tie ctx data w')) = Some s"
          by simp
        with "1.IH"[OF Inl True sel[symmetric] After] eq show ?thesis
          by simp
      qed
    qed
  qed
qed


subsection \<open>Classification of errors\<close>


lemma errors_As_None_chain:
  "errors_As err = None \<longleftrightarrow> (\<forall>code message. GoogleApiError code message \<notin> set (chain err))"
  by (induction err) auto

lemma Create_is_loop:
  "DomainResource_Create srv tie (Inr data) w =
     create_loop srv tie (context_WithTimeout w (createTimeout data)) data w"
  by (simp add: DomainResource_Create_def)

lemma Delete_is_loop:
  "DomainResource_Delete srv tie (Inr data) w =
     delete_loop srv tie (context_WithTimeout w (deleteTimeout data)) data w"
  by (simp add: DomainResource_Delete_def)

lemma decode_example:
  "url_QueryUnescape ''google-site-verification%3Dxyz'' = Inr ''google-site-verification=xyz''"
  by (simp add: url_QueryUnescape_def unescape_def ishex_def unhex_def char_of_eq_iff)

lemma checkErr_TokenNotFoundError: "checkErr TokenNotFoundError errTokenNotFound"
  by (simp add: TokenNotFoundError_def checkErr_def strings_Contains_self)

lemma checkErr_TokenStillPresentError: "checkErr TokenStillPresentError errTokenExists"
  by (simp add: TokenStillPresentError_def checkErr_def strings_Contains_self)

lemma createTimeout_default: "createTimeout (example_model no_timeouts) = 300 * Second"
  by (simp add: createTimeout_def timeouts_Create_def example_model_def no_timeouts_def
      sleepSeconds_def)



text \<open>
  Claim C9. An error whose chain holds no API error (a context cancellation or a
  deadline-exceeded error of a network call, a plain or a wrapped error) is never
  transient, whatever its text says, even when the text is the transient message itself.
  At any turn of the create or the delete loop such an error ends the operation with a
  diagnostic, after that call and without a sleep; \<open>DomainResource_Create\<close> and
  \<open>DomainResource_Delete\<close> are these loops started under the timeout context.
\<close>

theorem error_without_api_error_is_permanent:
  assumes "\<And>code message. GoogleApiError code message \<notin> set (chain err)"
  shows "\<not> checkErr err msg
    \<and> (Insert srv ctx w verificationMethod (Domain' data) resourceType = Inl err \<longrightarrow>
         create_loop srv tie ctx data w =
           (\<lparr>Diagnostics = [AddError ''Client Error''
                ''Unable to create verification, got error: %s'' [Err err]],
              State = None\<rparr>, w\<lparr>calls := calls w + 1\<rparr>))
    \<and> (Delete srv ctx w (Id' data) = Some err \<longrightarrow>
         delete_loop srv tie ctx data w =
           (\<lparr>Diagnostics = [AddError ''Client Error''
                ''Unable to delete verification, got error: %s'' [Err err]],
              State = None\<rparr>, w\<lparr>calls := calls w + 1\<rparr>))"
proof -
  from assms have "errors_As err = None"
    by (simp add: errors_As_None_chain)
  then have perm: "\<not> checkErr err m" for m
    by (simp add: checkErr_def)
  then show ?thesis
    by (simp add: create_loop_permanent delete_loop_permanent called_def)
qed

theorem error_without_api_error_is_permanent_witness:
  "\<not> checkErr (Wrap errTokenNotFound ContextDeadlineExceeded) errTokenNotFound
   \<and> \<not> checkErr ContextCanceled errTokenExists
   \<and> \<not> checkErr (ErrorString errTokenNotFound) errTokenNotFound
   \<and> DomainResource_Create
        (stub_Service 1 (Wrap errTokenNotFound ContextDeadlineExceeded) ''x'') True
        (Inr (example_model no_timeouts)) world0 =
      (\<lparr>Diagnostics = [AddError ''Client Error''
           ''Unable to create verification, got error: %s''
           [Err (Wrap errTokenNotFound ContextDeadlineExceeded)]],
         State = None\<rparr>, \<lparr>clock = 0, calls = 1, sleeps = 0\<rparr>)
   \<and> DomainResource_Delete (stub_Service 1 (Wrap errTokenExists ContextCanceled) ''x'') True
        (Inr (example_model no_timeouts)) world0 =
      (\<lparr>Diagnostics = [AddError ''Client Error''
           ''Unable to delete verification, got error: %s''
           [Err (Wrap errTokenExists ContextCanceled)]],
         State = None\<rparr>, \<lparr>clock = 0, calls = 1, sleeps = 0\<rparr>)"
proof -
  have 1: "GoogleApiError code message \<notin> set (chain (Wrap errTokenNotFound ContextDeadlineExceeded))"
    for code message by simp
  have 4: "GoogleApiError code message \<notin> set (chain (Wrap errTokenExists ContextCanceled))"
    for code message by simp
  have 2: "GoogleApiError code message \<notin> set (chain ContextCanceled)" for code message
    by simp
  have 3: "GoogleApiError code message \<notin> set (chain (ErrorString errTokenNotFound))"
    for code message by simp
  show ?thesis
    using error_without_api_error_is_permanent
        [OF 1, where msg = errTokenNotFound and w = world0 and tie = True
          and srv = "stub_Service 1 (Wrap errTokenNotFound ContextDeadlineExceeded) ''x''"
          and data = "example_model no_timeouts"
          and ctx = "context_WithTimeout world0 (createTimeout (example_model no_timeouts))"]
      error_without_api_error_is_permanent
        [OF 4, where msg = errTokenExists and w = world0 and tie = True
          and srv = "stub_Service 1 (Wrap errTokenExists ContextCanceled) ''x''"
          and data = "example_model no_timeouts"
          and ctx = "context_WithTimeout world0 (deleteTimeout (example_model no_timeouts))"]
      error_without_api_error_is_permanent [OF 2, of errTokenExists]
      error_without_api_error_is_permanent [OF 3, of errTokenNotFound]
    by (simp add: Create_is_loop Delete_is_loop stub_Service_def world0_def)
qed

subsection \<open>Import\<close>


lemma strings_TrimPrefix_other: "\<not> strings_HasPrefix s p \<Longrightarrow> strings_TrimPrefix s p = s"
  by (simp add: strings_TrimPrefix_def)

lemma ImportState_imported:
  "Get srv ctx w req_ID = None \<Longrightarrow>
   GetToken srv ctx (called w) (strings_TrimPrefix req_ID ''dns://'') resourceType verificationMethod
     = Inr token \<Longrightarrow>
   DomainResource_ImportState srv ctx req_ID w =
     (\<lparr>Diagnostics = [],
       State = Some \<lparr>Domain' = strings_TrimPrefix req_ID ''dns://'', Token = token,
         Id' = req_ID, Timeouts = no_timeouts\<rparr>\<rparr>, called (called w))"
  by (simp add: DomainResource_ImportState_def Let_def no_timeouts_def)

lemma ImportState_Get_failed:
  "Get srv ctx w req_ID = Some err \<Longrightarrow>
   DomainResource_ImportState srv ctx req_ID w =
     (\<lparr>Diagnostics = [AddError ''Client Error''
          ''Unable to import verification, got error: %s'' [Err err]], State = None\<rparr>, called w)"
  by (simp add: DomainResource_ImportState_def)

lemma ImportState_GetToken_failed:
  "Get srv ctx w req_ID = None \<Longrightarrow>
   GetToken srv ctx (called w) (strings_TrimPrefix req_ID ''dns://'') resourceType verificationMethod
     = Inl err \<Longrightarrow>
   DomainResource_ImportState srv ctx req_ID w =
     (\<lparr>Diagnostics = [AddError ''Client Error''
          ''Unable to import verification, got error: %s'' [Err err]], State = None\<rparr>,
      called (called w))"
  by (simp add: DomainResource_ImportState_def Let_def)



text \<open>
  Claim C6 says that an identifier not of the form \<^verbatim>\<open>dns://<domain>\<close> makes the import
  fail at once. \<^verbatim>\<open>ImportState\<close> has no check of the form: \<^verbatim>\<open>strings.TrimPrefix\<close>
  leaves an identifier without the prefix as it is. Importing \<^verbatim>\<open>example.com\<close> against
  a client whose calls succeed stores a record and reports nothing.
\<close>

theorem import_without_prefix_counterexample:
  "\<not> strings_HasPrefix ''example.com'' ''dns://''
   \<and> DomainResource_ImportState (stub_Service 0 TokenNotFoundError ''x'') context0
        ''example.com'' world0 =
     (\<lparr>Diagnostics = [],
       State = Some \<lparr>Domain' = ''example.com'', Token = ''abc123'', Id' = ''example.com'',
         Timeouts = no_timeouts\<rparr>\<rparr>,
      \<lparr>clock = 0, calls = 2, sleeps = 0\<rparr>)"
  by (simp add: DomainResource_ImportState_def strings_TrimPrefix_def stub_Service_def Let_def
      world0_def called_def no_timeouts_def)

text \<open>
  Claim C6, as amended. For an identifier that does not start with \<^verbatim>\<open>dns://\<close> the
  import takes the whole identifier as the domain. It ends with a diagnostic that carries
  the remote error, and stores nothing, when \<open>Get\<close> of the identifier fails or when
  \<open>GetToken\<close> of it fails; when both succeed it stores the record whose id and domain
  are the identifier and whose token is the fetched one.
\<close>

theorem import_without_prefix:
  assumes "\<not> strings_HasPrefix req_ID ''dns://''"
  shows "(Get srv ctx w req_ID = Some err \<longrightarrow>
           DomainResource_ImportState srv ctx req_ID w =
             (\<lparr>Diagnostics = [AddError ''Client Error''
                  ''Unable to import verification, got error: %s'' [Err err]],
                State = None\<rparr>, w\<lparr>calls := calls w + 1\<rparr>))
    \<and> (Get srv ctx w req_ID = None
         \<and> GetToken srv ctx (w\<lparr>calls := calls w + 1\<rparr>) req_ID resourceType verificationMethod
             = Inl err' \<longrightarrow>
           DomainResource_ImportState srv ctx req_ID w =
             (\<lparr>Diagnostics = [AddError ''Client Error''
                  ''Unable to import verification, got error: %s'' [Err err']],
                State = None\<rparr>, w\<lparr>calls := calls w + 2\<rparr>))
    \<and> (Get srv ctx w req_ID = None
         \<and> GetToken srv ctx (w\<lparr>calls := calls w + 1\<rparr>) req_ID resourceType verificationMethod
             = Inr token \<longrightarrow>
           DomainResource_ImportState srv ctx req_ID w =
             (\<lparr>Diagnostics = [],
                State = Some \<lparr>Domain' = req_ID, Token = token, Id' = req_ID,
                  Timeouts = no_timeouts\<rparr>\<rparr>, w\<lparr>calls := calls w + 2\<rparr>))"
proof -
  from assms have d: "strings_TrimPrefix req_ID ''dns://'' = req_ID"
    by (rule strings_TrimPrefix_other)
  have c: "called w = w\<lparr>calls := calls w + 1\<rparr>" "called (called w) = w\<lparr>calls := calls w + 2\<rparr>"
    by (simp_all add: called_def)
  show ?thesis
    using ImportState_Get_failed [of srv ctx w req_ID err]
      ImportState_GetToken_failed [of srv ctx w req_ID err']
      ImportState_imported [of srv ctx w req_ID token]
    by (simp add: d c)
qed

theorem import_without_prefix_witness:
  "\<not> strings_HasPrefix ''example.com'' ''dns://''
   \<and> DomainResource_ImportState (stub_Service 0 TokenNotFoundError ''x'') context0
        ''example.com'' world0 =
       (\<lparr>Diagnostics = [],
          State = Some \<lparr>Domain' = ''example.com'', Token = ''abc123'', Id' = ''example.com'',
            Timeouts = no_timeouts\<rparr>\<rparr>, \<lparr>clock = 0, calls = 2, sleeps = 0\<rparr>)
   \<and> DomainResource_ImportState (stub_Service 0 TokenNotFoundError ''x'') context0
        ''example.org'' world0 =
       (\<lparr>Diagnostics = [AddError ''Client Error''
            ''Unable to import verification, got error: %s''
            [Err (GoogleApiError 404 ''Not Found'')]],
          State = None\<rparr>, \<lparr>clock = 0, calls = 2, sleeps = 0\<rparr>)
   \<and> DomainResource_ImportState (stub_Service 0 TokenNotFoundError ''x'') context0
        ''unknown'' world0 =
       (\<lparr>Diagnostics = [AddError ''Client Error''
            ''Unable to import verification, got error: %s''
            [Err (GoogleApiError 404 ''Not Found'')]],
          State = None\<rparr>, \<lparr>clock = 0, calls = 1, sleeps = 0\<rparr>)"
proof -
  have 1: "\<not> strings_HasPrefix ''example.com'' ''dns://''"
    and 2: "\<not> strings_HasPrefix ''example.org'' ''dns://''"
    and 3: "\<not> strings_HasPrefix ''unknown'' ''dns://''"
    by simp_all
  show ?thesis
    using 1
      import_without_prefix
        [OF 1, where srv = "stub_Service 0 TokenNotFoundError ''x''" and ctx = context0
          and w = world0 and token = "''abc123''"]
      import_without_prefix
        [OF 2, where srv = "stub_Service 0 TokenNotFoundError ''x''" and ctx = context0
          and w = world0 and err' = "GoogleApiError 404 ''Not Found''"]
      import_without_prefix
        [OF 3, where srv = "stub_Service 0 TokenNotFoundError ''x''" and ctx = context0
          and w = world0 and err = "GoogleApiError 404 ''Not Found''"]
    by (simp add: stub_Service_def world0_def)
qed

subsection \<open>Create: retries and what is stored\<close>

lemma Create_retries_then_succeeds:
  assumes tr: "\<And>w' :: world. calls w \<le> calls w' \<Longrightarrow> calls w' < calls w + N \<Longrightarrow>
             \<exists>err. Insert srv (context_WithTimeout w (createTimeout data)) w'
                    verificationMethod (Domain' data) resourceType = Inl err
               \<and> checkErr err errTokenNotFound"
    and ok: "\<And>w' :: world. calls w' = calls w + N \<Longrightarrow>
             Insert srv (context_WithTimeout w (createTimeout data)) w'
                    verificationMethod (Domain' data) resourceType = Inr rid"
    and dec: "url_QueryUnescape rid = Inr id'"
    and fit: "int N * sleepSeconds < createTimeout data"
  shows "DomainResource_Create srv tie (Inr data) w =
     (\<lparr>Diagnostics = [], State = Some (data\<lparr>Id' := id'\<rparr>)\<rparr>,
      w\<lparr>clock := clock w + int N * sleepSeconds, calls := calls w + N + 1,
        sleeps := sleeps w + N\<rparr>)"
proof -
  let ?ctx = "context_WithTimeout w (createTimeout data)"
  let ?w' = "w\<lparr>clock := clock w + int N * sleepSeconds, calls := calls w + N,
               sleeps := sleeps w + N\<rparr>"
  have "clock w + int N * sleepSeconds < deadline ?ctx"
    using fit by (simp add: context_WithTimeout_def)
  with tr have "create_loop srv tie ?ctx data w = create_loop srv tie ?ctx data ?w'"
    by (rule create_loop_retries)
  moreover have "Insert srv ?ctx ?w' verificationMethod (Domain' data) resourceType = Inr rid"
    by (rule ok) simp
  ultimately show ?thesis
    by (simp add: Create_is_loop create_loop_inserted dec called_def)
qed

lemma stub_Create_succeeds:
  assumes "url_QueryUnescape rid = Inr id'" and "int N * sleepSeconds < createTimeout data"
  shows "DomainResource_Create (stub_Service N TokenNotFoundError rid) tie (Inr data) world0 =
     (\<lparr>Diagnostics = [], State = Some (data\<lparr>Id' := id'\<rparr>)\<rparr>,
      \<lparr>clock = int N * sleepSeconds, calls = N + 1, sleeps = N\<rparr>)"
proof -
  have "DomainResource_Create (stub_Service N TokenNotFoundError rid) tie (Inr data) world0 =
     (\<lparr>Diagnostics = [], State = Some (data\<lparr>Id' := id'\<rparr>)\<rparr>,
      world0\<lparr>clock := clock world0 + int N * sleepSeconds, calls := calls world0 + N + 1,
        sleeps := sleeps world0 + N\<rparr>)"
  proof (rule Create_retries_then_succeeds [OF _ _ assms])
    fix w' :: world
    assume "calls w' < calls world0 + N"
    then show "\<exists>err. Insert (stub_Service N TokenNotFoundError rid)
        (context_WithTimeout world0 (createTimeout data)) w' verificationMethod
        (Domain' data) resourceType = Inl err \<and> checkErr err errTokenNotFound"
      by (simp add: stub_Service_def world0_def checkErr_TokenNotFoundError)
  next
    fix w' :: world
    assume "calls w' = calls world0 + N"
    then show "Insert (stub_Service N TokenNotFoundError rid)
        (context_WithTimeout world0 (createTimeout data)) w' verificationMethod
        (Domain' data) resourceType = Inr rid"
      by (simp add: stub_Service_def world0_def)
  qed
  then show ?thesis by (simp add: world0_def)
qed

text \<open>
  Claim C7. A create stores a state, and with it a \<^verbatim>\<open>verificationId\<close>, only when the plan
  was read, some \<open>Insert\<close> call succeeded and the identifier it returned was decoded:
  the stored model is then the plan with the decoded identifier, there is no diagnostic,
  and that call was the last one. A turn of the loop that ends on a permanent
  \<open>Insert\<close> error, on an identifier that does not decode, or on the deadline coming
  before the end of the sleep, leaves the state unset.
\<close>

theorem no_id_without_full_success:
  "(State (fst (DomainResource_Create srv tie plan w)) = Some s \<longrightarrow>
      (\<exists>data w' rid id'. plan = Inr data
         \<and> Insert srv (context_WithTimeout w (createTimeout data)) w' verificationMethod
              (Domain' data) resourceType = Inr rid
         \<and> url_QueryUnescape rid = Inr id' \<and> s = data\<lparr>Id' := id'\<rparr>
         \<and> DomainResource_Create srv tie plan w =
             (\<lparr>Diagnostics = [], State = Some s\<rparr>, w'\<lparr>calls := calls w' + 1\<rparr>)))
   \<and> (Insert srv ctx w verificationMethod (Domain' data) resourceType = Inl err
        \<and> \<not> checkErr err errTokenNotFound \<longrightarrow>
      State (fst (create_loop srv tie ctx data w)) = None)
   \<and> (Insert srv ctx w verificationMethod (Domain' data) resourceType = Inr rid
        \<and> url_QueryUnescape rid = Inl err \<longrightarrow>
      State (fst (create_loop srv tie ctx data w)) = None)
   \<and> (Insert srv ctx w verificationMethod (Domain' data) resourceType = Inl err
        \<and> checkErr err errTokenNotFound \<and> deadline ctx < clock w + sleepSeconds \<longrightarrow>
      State (fst (create_loop srv tie ctx data w)) = None)"
proof (intro conjI impI)
  assume st: "State (fst (DomainResource_Create srv tie plan w)) = Some s"
  show "\<exists>data w' rid id'. plan = Inr data
         \<and> Insert srv (context_WithTimeout w (createTimeout data)) w' verificationMethod
              (Domain' data) resourceType = Inr rid
         \<and> url_QueryUnescape rid = Inr id' \<and> s = data\<lparr>Id' := id'\<rparr>
         \<and> DomainResource_Create srv tie plan w =
             (\<lparr>Diagnostics = [], State = Some s\<rparr>, w'\<lparr>calls := calls w' + 1\<rparr>)"
  proof (cases plan)
    case (Inl ds)
    with st show ?thesis
      by (simp add: DomainResource_Create_def)
  next
    case (Inr d)
    with st have "State (fst (create_loop srv tie (context_WithTimeout w (createTimeout d)) d w))
        = Some s"
      by (simp add: Create_is_loop)
    from create_loop_success_only [OF this] Inr show ?thesis
      by (auto simp: Create_is_loop called_def)
  qed
next
  assume "Insert srv ctx w verificationMethod (Domain' data) resourceType = Inl err
        \<and> \<not> checkErr err errTokenNotFound"
  then show "State (fst (create_loop srv tie ctx data w)) = None"
    by (simp add: create_loop_permanent)
next
  assume "Insert srv ctx w verificationMethod (Domain' data) resourceType = Inr rid
        \<and> url_QueryUnescape rid = Inl err"
  then show "State (fst (create_loop srv tie ctx data w)) = None"
    by (simp add: create_loop_inserted)
next
  assume a: "Insert srv ctx w verificationMethod (Domain' data) resourceType = Inl err
        \<and> checkErr err errTokenNotFound \<and> deadline ctx < clock w + sleepSeconds"
  then have "select_Done_After tie ctx (called w) =
      (Done, called w\<lparr>clock := max (deadline ctx) (clock (called w))\<rparr>)"
    by (simp add: select_Done)
  with a show "State (fst (create_loop srv tie ctx data w)) = None"
    by (simp add: create_loop_transient)
qed

theorem no_id_without_full_success_witness:
  "State (fst (DomainResource_Create
      (stub_Service 1 TokenNotFoundError ''google-site-verification%3Dxyz'') True
      (Inr (example_model no_timeouts)) world0))
     = Some (example_model no_timeouts\<lparr>Id' := ''google-site-verification=xyz''\<rparr>)
   \<and> (\<exists>data w' rid id'. Inr (example_model no_timeouts) = Inr data
         \<and> Insert (stub_Service 1 TokenNotFoundError ''google-site-verification%3Dxyz'')
              (context_WithTimeout world0 (createTimeout data)) w'
              verificationMethod (Domain' data) resourceType = Inr rid
         \<and> url_QueryUnescape rid = Inr id'
         \<and> example_model no_timeouts\<lparr>Id' := ''google-site-verification=xyz''\<rparr>
             = data\<lparr>Id' := id'\<rparr>)
   \<and> State (fst (create_loop (stub_Service 1 (GoogleApiError 403 ''Forbidden'') ''x'') True
        \<lparr>deadline = 300 * Second\<rparr> (example_model no_timeouts) world0)) = None
   \<and> State (fst (create_loop (stub_Service 0 TokenNotFoundError ''100%'') True
        \<lparr>deadline = 300 * Second\<rparr> (example_model no_timeouts) world0)) = None
   \<and> State (fst (create_loop (stub_Service 1 TokenNotFoundError ''x'') True
        \<lparr>deadline = 30 * Second\<rparr> (example_model no_timeouts) world0)) = None"
proof -
  let ?srv = "stub_Service 1 TokenNotFoundError ''google-site-verification%3Dxyz''"
  let ?s = "example_model no_timeouts\<lparr>Id' := ''google-site-verification=xyz''\<rparr>"
  have ok: "State (fst (DomainResource_Create ?srv True (Inr (example_model no_timeouts)) world0))
      = Some ?s"
    by (simp add: stub_Create_succeeds [OF decode_example] createTimeout_default
        sleepSeconds_def Second_def)
  have perm: "\<not> checkErr (GoogleApiError 403 ''Forbidden'') errTokenNotFound"
    by (simp add: checkErr_def)
  have bad: "url_QueryUnescape ''100%'' = Inl (EscapeError ''%'')"
    by (simp add: url_QueryUnescape_def unescape_def)
  have "\<exists>data w' rid id'. Inr (example_model no_timeouts) = Inr data
         \<and> Insert ?srv (context_WithTimeout world0 (createTimeout data)) w'
              verificationMethod (Domain' data) resourceType = Inr rid
         \<and> url_QueryUnescape rid = Inr id' \<and> ?s = data\<lparr>Id' := id'\<rparr>"
    using ok no_id_without_full_success
      [where srv = ?srv and tie = True and plan = "Inr (example_model no_timeouts)"
        and w = world0 and s = ?s]
    by blast
  moreover have "State (fst (create_loop (stub_Service 1 (GoogleApiError 403 ''Forbidden'') ''x'')
        True \<lparr>deadline = 300 * Second\<rparr> (example_model no_timeouts) world0)) = None"
    using perm no_id_without_full_success
      [where srv = "stub_Service 1 (GoogleApiError 403 ''Forbidden'') ''x''" and w = world0
        and data = "example_model no_timeouts" and err = "GoogleApiError 403 ''Forbidden''"]
    by (simp add: stub_Service_def world0_def)
  moreover have "State (fst (create_loop (stub_Service 0 TokenNotFoundError ''100%'') True
        \<lparr>deadline = 300 * Second\<rparr> (example_model no_timeouts) world0)) = None"
    using bad no_id_without_full_success
      [where srv = "stub_Service 0 TokenNotFoundError ''100%''" and w = world0
        and data = "example_model no_timeouts" and err = "EscapeError ''%''"
        and rid = "''100%''"]
    by (simp add: stub_Service_def world0_def)
  moreover have "State (fst (create_loop (stub_Service 1 TokenNotFoundError ''x'') True
        \<lparr>deadline = 30 * Second\<rparr> (example_model no_timeouts) world0)) = None"
    using checkErr_TokenNotFoundError no_id_without_full_success
      [where srv = "stub_Service 1 TokenNotFoundError ''x''" and w = world0
        and data = "example_model no_timeouts" and err = TokenNotFoundError
        and ctx = "\<lparr>deadline = 30 * Second\<rparr>"]
    by (simp add: stub_Service_def world0_def sleepSeconds_def Second_def)
  ultimately show ?thesis using ok by blast
qed

subsection \<open>Decoding\<close>

lemma ishex_not_special: "ishex c \<Longrightarrow> c \<noteq> CHR ''%'' \<and> c \<noteq> CHR ''+''"
  by (auto simp: ishex_def)

lemma well_escaped_Cons:
  "well_escaped (c # s) \<longleftrightarrow>
     (c = CHR ''%'' \<longrightarrow> 2 \<le> length s \<and> ishex (s ! 0) \<and> ishex (s ! 1)) \<and> well_escaped s"
  by (auto simp: well_escaped_def All_less_Suc2)

lemma unescape_scan_well_escaped: "unescape_scan s = None \<longleftrightarrow> well_escaped s"
proof (induction s rule: unescape_scan.induct)
  case 1
  show ?case by (simp add: well_escaped_def)
next
  case (2 c s)
  show ?case
  proof (cases "c = CHR ''%''")
    case False
    with 2 show ?thesis by (simp add: well_escaped_Cons)
  next
    case True
    show ?thesis
    proof (cases s)
      case Nil
      with True show ?thesis by (simp add: well_escaped_Cons)
    next
      case (Cons a s')
      show ?thesis
      proof (cases s')
        case Nil
        with True Cons show ?thesis by (simp add: well_escaped_Cons)
      next
        case (Cons b rest)
        with True \<open>s = a # s'\<close> have s: "s = a # b # rest" by simp
        show ?thesis
        proof (cases "ishex a \<and> ishex b")
          case False
          with True s show ?thesis by (auto simp: well_escaped_Cons)
        next
          case hex: True
          with "2.IH"(1)[OF True s] have "unescape_scan rest = None \<longleftrightarrow> well_escaped rest"
            by simp
          with True s hex ishex_not_special[of a] ishex_not_special[of b] show ?thesis
            by (simp add: well_escaped_Cons)
        qed
      qed
    qed
  qed
qed

lemma unescape_write_same:
  "CHR ''%'' \<notin> set s \<Longrightarrow> mode = encodeQueryComponent \<longrightarrow> CHR ''+'' \<notin> set s \<Longrightarrow>
   unescape_write s mode = s"
  by (induction s) auto

lemma unescape_valid: "unescape_scan s = None \<Longrightarrow> unescape s mode = Inr (unescape_write s mode)"
  by (auto simp: unescape_def unescape_write_same)

lemma unescape_invalid: "unescape_scan s = Some e \<Longrightarrow> unescape s mode = Inl (EscapeError e)"
  by (simp add: unescape_def)

lemma unescape_scan_plus_to_space:
  "unescape_scan s = None \<Longrightarrow> unescape_scan (plus_to_space s) = None"
proof (induction s rule: unescape_scan.induct)
  case 1
  show ?case by (simp add: plus_to_space_def)
next
  case (2 c s)
  show ?case
  proof (cases "c = CHR ''%''")
    case False
    with 2 show ?thesis by (simp add: plus_to_space_def)
  next
    case True
    with "2.prems" obtain a b rest where s: "s = a # b # rest" and hex: "ishex a" "ishex b"
      and rest: "unescape_scan rest = None"
      by (auto split: list.splits if_splits)
    from "2.IH"(1)[OF True s] hex rest have "unescape_scan (plus_to_space rest) = None"
      by simp
    with True s hex ishex_not_special[of a] ishex_not_special[of b] show ?thesis
      by (simp add: plus_to_space_def)
  qed
qed

lemma unescape_write_plus_to_space:
  "unescape_scan s = None \<Longrightarrow>
   unescape_write s encodeQueryComponent = unescape_write (plus_to_space s) encodePathSegment"
proof (induction s rule: unescape_scan.induct)
  case 1
  show ?case by (simp add: plus_to_space_def)
next
  case (2 c s)
  show ?case
  proof (cases "c = CHR ''%''")
    case False
    with 2 show ?thesis by (simp add: plus_to_space_def)
  next
    case True
    with "2.prems" obtain a b rest where s: "s = a # b # rest" and hex: "ishex a" "ishex b"
      and rest: "unescape_scan rest = None"
      by (auto split: list.splits if_splits)
    from "2.IH"(1)[OF True s] hex rest
    have "unescape_write rest encodeQueryComponent
        = unescape_write (plus_to_space rest) encodePathSegment"
      by simp
    with True s hex ishex_not_special[of a] ishex_not_special[of b] show ?thesis
      by (simp add: plus_to_space_def)
  qed
qed

lemma QueryUnescape_is_PathUnescape_of_spaces:
  "well_escaped s \<Longrightarrow> url_QueryUnescape s = url_PathUnescape (plus_to_space s)"
  by (simp add: url_QueryUnescape_def url_PathUnescape_def unescape_valid
      unescape_scan_plus_to_space unescape_write_plus_to_space
      unescape_scan_well_escaped [symmetric])

lemma QueryUnescape_without_percent:
  "CHR ''%'' \<notin> set s \<Longrightarrow> url_QueryUnescape s = Inr (plus_to_space s)"
proof -
  assume n: "CHR ''%'' \<notin> set s"
  then have "unescape_scan s = None"
    by (induction s) auto
  moreover from n have "unescape_write s encodeQueryComponent = plus_to_space s"
    by (induction s) (auto simp: plus_to_space_def)
  ultimately show ?thesis
    by (simp add: url_QueryUnescape_def unescape_valid)
qed

text \<open>
  Claim C10. When \<open>Insert\<close> returns an identifier, the create decodes it as a query
  string. If the identifier is well escaped, the stored \<^verbatim>\<open>verificationId\<close> is the
  percent-decoding (\<^verbatim>\<open>url.PathUnescape\<close>, which leaves a \<^verbatim>\<open>+\<close> alone) of the identifier
  with a space put for each \<^verbatim>\<open>+\<close>; with no \<^verbatim>\<open>%\<close> in it, that is the identifier
  itself with a space for each \<^verbatim>\<open>+\<close>. If it is not well escaped, the create ends with
  a diagnostic that carries the escape error, and stores nothing.
\<close>

theorem create_decodes_plus_as_space:
  assumes "Insert srv ctx w verificationMethod (Domain' data) resourceType = Inr rid"
  shows "(well_escaped rid \<longrightarrow>
           (\<exists>id'. url_PathUnescape (plus_to_space rid) = Inr id'
              \<and> create_loop srv tie ctx data w =
                  (\<lparr>Diagnostics = [], State = Some (data\<lparr>Id' := id'\<rparr>)\<rparr>,
                   w\<lparr>calls := calls w + 1\<rparr>)))
    \<and> (CHR ''%'' \<notin> set rid \<longrightarrow>
           create_loop srv tie ctx data w =
             (\<lparr>Diagnostics = [], State = Some (data\<lparr>Id' := plus_to_space rid\<rparr>)\<rparr>,
              w\<lparr>calls := calls w + 1\<rparr>))
    \<and> (\<not> well_escaped rid \<longrightarrow>
           (\<exists>e. create_loop srv tie ctx data w =
              (\<lparr>Diagnostics = [AddError ''Client Error'' ''failed to urldecode id %s, %s''
                   [Str rid, Err (EscapeError e)]],
                 State = None\<rparr>, w\<lparr>calls := calls w + 1\<rparr>)))"
proof (intro conjI impI)
  assume wf: "well_escaped rid"
  then have scan: "unescape_scan rid = None"
    by (simp add: unescape_scan_well_escaped)
  then have "url_QueryUnescape rid = Inr (unescape_write rid encodeQueryComponent)"
    by (simp add: url_QueryUnescape_def unescape_valid)
  moreover from wf have "url_QueryUnescape rid = url_PathUnescape (plus_to_space rid)"
    by (rule QueryUnescape_is_PathUnescape_of_spaces)
  ultimately show "\<exists>id'. url_PathUnescape (plus_to_space rid) = Inr id'
      \<and> create_loop srv tie ctx data w =
          (\<lparr>Diagnostics = [], State = Some (data\<lparr>Id' := id'\<rparr>)\<rparr>, w\<lparr>calls := calls w + 1\<rparr>)"
    using assms by (simp add: create_loop_inserted called_def)
next
  assume "CHR ''%'' \<notin> set rid"
  then have "url_QueryUnescape rid = Inr (plus_to_space rid)"
    by (rule QueryUnescape_without_percent)
  with assms show "create_loop srv tie ctx data w =
      (\<lparr>Diagnostics = [], State = Some (data\<lparr>Id' := plus_to_space rid\<rparr>)\<rparr>,
       w\<lparr>calls := calls w + 1\<rparr>)"
    by (simp add: create_loop_inserted called_def)
next
  assume "\<not> well_escaped rid"
  then obtain e where "unescape_scan rid = Some e"
    by (auto simp: unescape_scan_well_escaped [symmetric])
  then have "url_QueryUnescape rid = Inl (EscapeError e)"
    by (simp add: url_QueryUnescape_def unescape_invalid)
  with assms show "\<exists>e. create_loop srv tie ctx data w =
      (\<lparr>Diagnostics = [AddError ''Client Error'' ''failed to urldecode id %s, %s''
           [Str rid, Err (EscapeError e)]],
         State = None\<rparr>, w\<lparr>calls := calls w + 1\<rparr>)"
    by (simp add: create_loop_inserted called_def)
qed

theorem create_decodes_plus_as_space_witness:
  "well_escaped ''a+b%2Bc+d''
   \<and> create_loop (stub_Service 0 TokenNotFoundError ''a+b%2Bc+d'') True
        \<lparr>deadline = 300 * Second\<rparr> (example_model no_timeouts) world0 =
      (\<lparr>Diagnostics = [], State = Some (example_model no_timeouts\<lparr>Id' := ''a b+c d''\<rparr>)\<rparr>,
       \<lparr>clock = 0, calls = 1, sleeps = 0\<rparr>)
   \<and> create_loop (stub_Service 0 TokenNotFoundError ''a+b'') True
        \<lparr>deadline = 300 * Second\<rparr> (example_model no_timeouts) world0 =
      (\<lparr>Diagnostics = [], State = Some (example_model no_timeouts\<lparr>Id' := ''a b''\<rparr>)\<rparr>,
       \<lparr>clock = 0, calls = 1, sleeps = 0\<rparr>)
   \<and> \<not> well_escaped ''a+b%2''
   \<and> State (fst (create_loop (stub_Service 0 TokenNotFoundError ''a+b%2'') True
        \<lparr>deadline = 300 * Second\<rparr> (example_model no_timeouts) world0)) = None"
proof -
  have wf: "well_escaped ''a+b%2Bc+d''"
    by (simp add: unescape_scan_well_escaped [symmetric] ishex_def)
  have nwf: "\<not> well_escaped ''a+b%2''"
    by (simp add: unescape_scan_well_escaped [symmetric])
  have dec: "url_PathUnescape (plus_to_space ''a+b%2Bc+d'') = Inr ''a b+c d''"
    by (simp add: url_PathUnescape_def unescape_def plus_to_space_def ishex_def unhex_def
        char_of_eq_iff)
  have ins: "Insert (stub_Service 0 TokenNotFoundError rid) ctx world0 verificationMethod
      (Domain' (example_model no_timeouts)) resourceType = Inr rid" for rid ctx
    by (simp add: stub_Service_def)
  have "create_loop (stub_Service 0 TokenNotFoundError ''a+b%2Bc+d'') True
        \<lparr>deadline = 300 * Second\<rparr> (example_model no_timeouts) world0 =
      (\<lparr>Diagnostics = [], State = Some (example_model no_timeouts\<lparr>Id' := ''a b+c d''\<rparr>)\<rparr>,
       \<lparr>clock = 0, calls = 1, sleeps = 0\<rparr>)"
    using wf dec create_decodes_plus_as_space
      [OF ins, where rid = "''a+b%2Bc+d''" and tie = True and ctx = "\<lparr>deadline = 300 * Second\<rparr>"]
    by (auto simp: world0_def)
  moreover have "create_loop (stub_Service 0 TokenNotFoundError ''a+b'') True
        \<lparr>deadline = 300 * Second\<rparr> (example_model no_timeouts) world0 =
      (\<lparr>Diagnostics = [], State = Some (example_model no_timeouts\<lparr>Id' := ''a b''\<rparr>)\<rparr>,
       \<lparr>clock = 0, calls = 1, sleeps = 0\<rparr>)"
    using create_decodes_plus_as_space
      [OF ins, where rid = "''a+b''" and tie = True and ctx = "\<lparr>deadline = 300 * Second\<rparr>"]
    by (simp add: world0_def plus_to_space_def)
  moreover have "State (fst (create_loop (stub_Service 0 TokenNotFoundError ''a+b%2'') True
        \<lparr>deadline = 300 * Second\<rparr> (example_model no_timeouts) world0)) = None"
    using nwf create_decodes_plus_as_space
      [OF ins, where rid = "''a+b%2''" and tie = True and ctx = "\<lparr>deadline = 300 * Second\<rparr>"]
    by auto
  ultimately show ?thesis using wf nwf by blast
qed

subsection \<open>The delete loop, and the loops up to the deadline\<close>

lemma delete_loop_retries:
  assumes "\<And>w' :: world. calls w \<le> calls w' \<Longrightarrow> calls w' < calls w + N \<Longrightarrow>
             \<exists>err. Delete srv ctx w' (Id' data) = Some err
               \<and> checkErr err errTokenExists"
    and "clock w + int N * sleepSeconds < deadline ctx"
  shows "delete_loop srv tie ctx data w =
     delete_loop srv tie ctx data
       (w\<lparr>clock := clock w + int N * sleepSeconds, calls := calls w + N, sleeps := sleeps w + N\<rparr>)"
  using assms
proof (induction N arbitrary: w)
  case 0
  then show ?case by simp
next
  case (Suc N)
  let ?w1 = "w\<lparr>clock := clock w + sleepSeconds, calls := calls w + 1, sleeps := sleeps w + 1\<rparr>"
  from Suc.prems(1)[of w] obtain err
    where err: "Delete srv ctx w (Id' data) = Some err"
      "checkErr err errTokenExists"
    by auto
  have "clock w + sleepSeconds < deadline ctx"
  proof -
    have "0 \<le> int N * sleepSeconds" using sleepSeconds_pos by simp
    then show ?thesis using Suc.prems(2) by (simp add: algebra_simps)
  qed
  then have sel: "select_Done_After tie ctx (called w) = (After, ?w1)"
    by (simp add: select_After called_def)
  have step: "delete_loop srv tie ctx data w = delete_loop srv tie ctx data ?w1"
    by (simp add: delete_loop_transient[OF err] sel)
  have "delete_loop srv tie ctx data ?w1 =
     delete_loop srv tie ctx data
       (?w1\<lparr>clock := clock ?w1 + int N * sleepSeconds, calls := calls ?w1 + N, sleeps := sleeps ?w1 + N\<rparr>)"
  proof (rule Suc.IH)
    fix w' :: world assume "calls ?w1 \<le> calls w'" "calls w' < calls ?w1 + N"
    then show "\<exists>err. Delete srv ctx w' (Id' data) = Some err
               \<and> checkErr err errTokenExists"
      using Suc.prems(1)[of w'] by simp
  next
    show "clock ?w1 + int N * sleepSeconds < deadline ctx"
      using Suc.prems(2) by (simp add: algebra_simps)
  qed
  then show ?case using step by (simp add: algebra_simps)
qed


lemma create_loop_deadline_first:
  assumes "\<And>w' :: world. calls w \<le> calls w' \<Longrightarrow> calls w' < calls w + N \<Longrightarrow>
             \<exists>err. Insert srv ctx w' verificationMethod (Domain' data) resourceType = Inl err
               \<and> checkErr err errTokenNotFound"
    and "0 < N" and "deadline ctx < clock w + int N * sleepSeconds"
  shows "fst (create_loop srv tie ctx data w) = \<lparr>Diagnostics = [], State = None\<rparr>"
  using assms
proof (induction N arbitrary: w)
  case 0
  then show ?case by simp
next
  case (Suc N)
  from Suc.prems(1)[of w] obtain err
    where err: "Insert srv ctx w verificationMethod (Domain' data) resourceType = Inl err"
      "checkErr err errTokenNotFound"
    by auto
  from select_cases[of tie ctx "called w"] show ?case
  proof (elim disjE conjE)
    assume "select_Done_After tie ctx (called w) =
        (Done, called w\<lparr>clock := max (deadline ctx) (clock (called w))\<rparr>)"
    then show ?thesis
      by (simp add: create_loop_transient[OF err])
  next
    let ?w1 = "called w\<lparr>clock := clock (called w) + sleepSeconds,
                 sleeps := sleeps (called w) + 1\<rparr>"
    assume sel: "select_Done_After tie ctx (called w) = (After, ?w1)"
      and le: "clock (called w) + sleepSeconds \<le> deadline ctx"
    have lt: "deadline ctx < clock ?w1 + int N * sleepSeconds"
      using Suc.prems(3) by (simp add: algebra_simps)
    with le have "0 < N"
      by (cases N) simp_all
    moreover have "\<exists>err. Insert srv ctx w' verificationMethod (Domain' data) resourceType = Inl err
        \<and> checkErr err errTokenNotFound"
      if "calls ?w1 \<le> calls w'" "calls w' < calls ?w1 + N" for w' :: world
      using that Suc.prems(1)[of w'] by simp
    ultimately have "fst (create_loop srv tie ctx data ?w1) = \<lparr>Diagnostics = [], State = None\<rparr>"
      using lt by (intro Suc.IH) auto
    then show ?thesis
      by (simp add: create_loop_transient[OF err] sel)
  qed
qed

lemma delete_loop_deadline_first:
  assumes "\<And>w' :: world. calls w \<le> calls w' \<Longrightarrow> calls w' < calls w + N \<Longrightarrow>
             \<exists>err. Delete srv ctx w' (Id' data) = Some err \<and> checkErr err errTokenExists"
    and "0 < N" and "deadline ctx < clock w + int N * sleepSeconds"
  shows "fst (delete_loop srv tie ctx data w) = \<lparr>Diagnostics = [], State = None\<rparr>"
  using assms
proof (induction N arbitrary: w)
  case 0
  then show ?case by simp
next
  case (Suc N)
  from Suc.prems(1)[of w] obtain err
    where err: "Delete srv ctx w (Id' data) = Some err" "checkErr err errTokenExists"
    by auto
  from select_cases[of tie ctx "called w"] show ?case
  proof (elim disjE conjE)
    assume "select_Done_After tie ctx (called w) =
        (Done, called w\<lparr>clock := max (deadline ctx) (clock (called w))\<rparr>)"
    then show ?thesis
      by (simp add: delete_loop_transient[OF err])
  next
    let ?w1 = "called w\<lparr>clock := clock (called w) + sleepSeconds,
                 sleeps := sleeps (called w) + 1\<rparr>"
    assume sel: "select_Done_After tie ctx (called w) = (After, ?w1)"
      and le: "clock (called w) + sleepSeconds \<le> deadline ctx"
    have lt: "deadline ctx < clock ?w1 + int N * sleepSeconds"
      using Suc.prems(3) by (simp add: algebra_simps)
    with le have "0 < N"
      by (cases N) simp_all
    moreover have "\<exists>err. Delete srv ctx w' (Id' data) = Some err \<and> checkErr err errTokenExists"
      if "calls ?w1 \<le> calls w'" "calls w' < calls ?w1 + N" for w' :: world
      using that Suc.prems(1)[of w'] by simp
    ultimately have "fst (delete_loop srv tie ctx data ?w1) = \<lparr>Diagnostics = [], State = None\<rparr>"
      using lt by (intro Suc.IH) auto
    then show ?thesis
      by (simp add: delete_loop_transient[OF err] sel)
  qed
qed

lemma stub_Create_deadline_first:
  assumes "0 < N" and "createTimeout data < int N * sleepSeconds"
  shows "fst (DomainResource_Create (stub_Service N TokenNotFoundError rid) tie (Inr data) world0)
     = \<lparr>Diagnostics = [], State = None\<rparr>"
  unfolding Create_is_loop
proof (rule create_loop_deadline_first [where N = N])
  fix w' :: world
  assume "calls w' < calls world0 + N"
  then show "\<exists>err. Insert (stub_Service N TokenNotFoundError rid)
      (context_WithTimeout world0 (createTimeout data)) w' verificationMethod
      (Domain' data) resourceType = Inl err \<and> checkErr err errTokenNotFound"
    by (simp add: stub_Service_def world0_def checkErr_TokenNotFoundError)
next
  show "0 < N" by fact
next
  show "deadline (context_WithTimeout world0 (createTimeout data))
      < clock world0 + int N * sleepSeconds"
    using assms(2) by (simp add: context_WithTimeout_def world0_def)
qed

lemma short_createTimeout: "createTimeout (example_model short_timeouts) = 30 * Second"
  by (simp add: createTimeout_def timeouts_Create_def example_model_def short_timeouts_def)

lemma short_deleteTimeout: "deleteTimeout (example_model short_timeouts) = 30 * Second"
  by (simp add: deleteTimeout_def timeouts_Delete_def example_model_def short_timeouts_def)

text \<open>
  Claim C1. Its first half holds: \<open>Create_retries_then_succeeds\<close> shows that after \<open>N\<close>
  transient answers, with \<open>N\<close> sleeps of 60 seconds ending before the deadline, the create
  stores the decoded identifier of the successful call. Its second half asks for a
  timeout error when the sleeps do not fit. With the default of 300 seconds and a client
  that answers ``token not found'' six times before it would succeed, the create leaves
  through the \<^verbatim>\<open>ctx.Done()\<close> branch: it stores nothing and reports nothing, whichever
  way a tie of the two channels goes.
\<close>

theorem create_past_deadline_reports_nothing:
  "fst (DomainResource_Create
     (stub_Service 6 TokenNotFoundError ''google-site-verification%3Dxyz'') tie
     (Inr (example_model no_timeouts)) world0) = \<lparr>Diagnostics = [], State = None\<rparr>"
  by (rule stub_Create_deadline_first)
    (simp_all add: createTimeout_default sleepSeconds_def Second_def)

text \<open>
  Claim C4. With a timeout of 30 seconds and a transient answer to the first call, the
  deadline comes during the wait: create and delete both return with no diagnostic at
  all (and create with no state). When instead the call itself is cut by the deadline and
  answers a wrapped \<^verbatim>\<open>context.DeadlineExceeded\<close>, the diagnostic is the one of any
  permanent error, with the same summary and format.
\<close>

theorem deadline_while_waiting_reports_nothing:
  "DomainResource_Create (stub_Service 1 TokenNotFoundError ''x'') tie
       (Inr (example_model short_timeouts)) world0 =
     (\<lparr>Diagnostics = [], State = None\<rparr>, \<lparr>clock = 30 * Second, calls = 1, sleeps = 0\<rparr>)
   \<and> DomainResource_Delete (stub_Service 1 TokenStillPresentError ''x'') tie
       (Inr (example_model short_timeouts)) world0 =
     (\<lparr>Diagnostics = [], State = None\<rparr>, \<lparr>clock = 30 * Second, calls = 1, sleeps = 0\<rparr>)
   \<and> DomainResource_Create (stub_Service 1 (Wrap ''Post'' ContextDeadlineExceeded) ''x'') tie
       (Inr (example_model short_timeouts)) world0 =
     (\<lparr>Diagnostics = [AddError ''Client Error''
          ''Unable to create verification, got error: %s''
          [Err (Wrap ''Post'' ContextDeadlineExceeded)]],
        State = None\<rparr>, \<lparr>clock = 0, calls = 1, sleeps = 0\<rparr>)"
proof (intro conjI)
  let ?ctx = "\<lparr>deadline = 30 * Second\<rparr>"
  have sel: "select_Done_After tie ?ctx (called world0) =
      (Done, \<lparr>clock = 30 * Second, calls = 1, sleeps = 0\<rparr>)"
    by (simp add: select_Done sleepSeconds_def Second_def world0_def called_def)
  have c: "context_WithTimeout world0 (30 * Second) = ?ctx"
    by (simp add: context_WithTimeout_def world0_def)
  have "Insert (stub_Service 1 TokenNotFoundError ''x'') ?ctx world0 verificationMethod
      (Domain' (example_model short_timeouts)) resourceType = Inl TokenNotFoundError"
    by (simp add: stub_Service_def world0_def)
  from create_loop_transient [OF this checkErr_TokenNotFoundError]
  show "DomainResource_Create (stub_Service 1 TokenNotFoundError ''x'') tie
       (Inr (example_model short_timeouts)) world0 =
     (\<lparr>Diagnostics = [], State = None\<rparr>, \<lparr>clock = 30 * Second, calls = 1, sleeps = 0\<rparr>)"
    by (simp add: Create_is_loop short_createTimeout c sel)
  have "Delete (stub_Service 1 TokenStillPresentError ''x'') ?ctx world0
      (Id' (example_model short_timeouts)) = Some TokenStillPresentError"
    by (simp add: stub_Service_def world0_def)
  from delete_loop_transient [OF this checkErr_TokenStillPresentError]
  show "DomainResource_Delete (stub_Service 1 TokenStillPresentError ''x'') tie
       (Inr (example_model short_timeouts)) world0 =
     (\<lparr>Diagnostics = [], State = None\<rparr>, \<lparr>clock = 30 * Second, calls = 1, sleeps = 0\<rparr>)"
    by (simp add: Delete_is_loop short_deleteTimeout c sel)
  have "Insert (stub_Service 1 (Wrap ''Post'' ContextDeadlineExceeded) ''x'') ?ctx world0
      verificationMethod (Domain' (example_model short_timeouts)) resourceType
      = Inl (Wrap ''Post'' ContextDeadlineExceeded)"
    by (simp add: stub_Service_def world0_def)
  moreover have "\<not> checkErr (Wrap ''Post'' ContextDeadlineExceeded) errTokenNotFound"
    by (simp add: checkErr_def)
  ultimately have "create_loop (stub_Service 1 (Wrap ''Post'' ContextDeadlineExceeded) ''x'') tie
       ?ctx (example_model short_timeouts) world0 =
     (\<lparr>Diagnostics = [AddError ''Client Error''
          ''Unable to create verification, got error: %s''
          [Err (Wrap ''Post'' ContextDeadlineExceeded)]],
        State = None\<rparr>, called world0)"
    by (rule create_loop_permanent)
  then show "DomainResource_Create
       (stub_Service 1 (Wrap ''Post'' ContextDeadlineExceeded) ''x'') tie
       (Inr (example_model short_timeouts)) world0 =
     (\<lparr>Diagnostics = [AddError ''Client Error''
          ''Unable to create verification, got error: %s''
          [Err (Wrap ''Post'' ContextDeadlineExceeded)]],
        State = None\<rparr>, \<lparr>clock = 0, calls = 1, sleeps = 0\<rparr>)"
    by (simp add: Create_is_loop short_createTimeout context_WithTimeout_def called_def
        world0_def)
qed

text \<open>
  Claim C2 says that a ``token still present'' answer is followed by a sleep of 60 seconds
  and another \<open>Delete\<close> call. Under a timeout of 30 seconds it is not: the delete stops at
  the deadline, after its single call and without a completed sleep, although the second
  call of this client would have succeeded.
\<close>

theorem delete_retry_cut_by_deadline_counterexample:
  "Delete (stub_Service 1 TokenStillPresentError ''x'') \<lparr>deadline = 30 * Second\<rparr> world0
       (Id' (example_model short_timeouts)) = Some TokenStillPresentError
   \<and> checkErr TokenStillPresentError errTokenExists
   \<and> snd (DomainResource_Delete (stub_Service 1 TokenStillPresentError ''x'') True
       (Inr (example_model short_timeouts)) world0)
      = \<lparr>clock = 30 * Second, calls = 1, sleeps = 0\<rparr>"
proof -
  let ?ctx = "\<lparr>deadline = 30 * Second\<rparr>"
  have sel: "select_Done_After True ?ctx (called world0) =
      (Done, \<lparr>clock = 30 * Second, calls = 1, sleeps = 0\<rparr>)"
    by (simp add: select_Done sleepSeconds_def Second_def world0_def called_def)
  have c: "context_WithTimeout world0 (30 * Second) = ?ctx"
    by (simp add: context_WithTimeout_def world0_def)
  have d: "Delete (stub_Service 1 TokenStillPresentError ''x'') ?ctx world0
      (Id' (example_model short_timeouts)) = Some TokenStillPresentError"
    by (simp add: stub_Service_def world0_def)
  from delete_loop_transient [OF this checkErr_TokenStillPresentError] d
  show ?thesis
    by (simp add: Delete_is_loop short_deleteTimeout c sel checkErr_TokenStillPresentError)
qed

text \<open>
  Claim C2, as amended. At each turn of the delete loop: no error ends the delete as a
  success; an error that is not the transient one ends it at once with that error in a
  diagnostic; the transient error is followed by a sleep of 60 seconds and another
  \<open>Delete\<close> call whenever that sleep ends before the deadline; and when the deadline
  comes before the end of the sleep, the wait stops at the deadline and no further call
  is made.
\<close>

theorem delete_transition:
  "(Delete srv ctx w (Id' data) = None \<longrightarrow>
      delete_loop srv tie ctx data w =
        (\<lparr>Diagnostics = [], State = None\<rparr>, w\<lparr>calls := calls w + 1\<rparr>))
   \<and> (Delete srv ctx w (Id' data) = Some err \<and> \<not> checkErr err errTokenExists \<longrightarrow>
      delete_loop srv tie ctx data w =
        (\<lparr>Diagnostics = [AddError ''Client Error''
             ''Unable to delete verification, got error: %s'' [Err err]],
           State = None\<rparr>, w\<lparr>calls := calls w + 1\<rparr>))
   \<and> (Delete srv ctx w (Id' data) = Some err \<and> checkErr err errTokenExists
        \<and> clock w + sleepSeconds < deadline ctx \<longrightarrow>
      delete_loop srv tie ctx data w =
        delete_loop srv tie ctx data
          (w\<lparr>clock := clock w + sleepSeconds, calls := calls w + 1, sleeps := sleeps w + 1\<rparr>))
   \<and> (Delete srv ctx w (Id' data) = Some err \<and> checkErr err errTokenExists
        \<and> deadline ctx < clock w + sleepSeconds \<longrightarrow>
      snd (delete_loop srv tie ctx data w) =
        w\<lparr>clock := max (deadline ctx) (clock w), calls := calls w + 1\<rparr>)"
proof (intro conjI impI)
  assume "Delete srv ctx w (Id' data) = None"
  then show "delete_loop srv tie ctx data w =
      (\<lparr>Diagnostics = [], State = None\<rparr>, w\<lparr>calls := calls w + 1\<rparr>)"
    by (simp add: delete_loop_none called_def)
next
  assume "Delete srv ctx w (Id' data) = Some err \<and> \<not> checkErr err errTokenExists"
  then show "delete_loop srv tie ctx data w =
      (\<lparr>Diagnostics = [AddError ''Client Error''
           ''Unable to delete verification, got error: %s'' [Err err]],
         State = None\<rparr>, w\<lparr>calls := calls w + 1\<rparr>)"
    by (simp add: delete_loop_permanent called_def)
next
  assume a: "Delete srv ctx w (Id' data) = Some err \<and> checkErr err errTokenExists
      \<and> clock w + sleepSeconds < deadline ctx"
  then have "select_Done_After tie ctx (called w) =
      (After, w\<lparr>clock := clock w + sleepSeconds, calls := calls w + 1, sleeps := sleeps w + 1\<rparr>)"
    by (simp add: select_After called_def)
  with a show "delete_loop srv tie ctx data w =
      delete_loop srv tie ctx data
        (w\<lparr>clock := clock w + sleepSeconds, calls := calls w + 1, sleeps := sleeps w + 1\<rparr>)"
    by (simp add: delete_loop_transient)
next
  assume a: "Delete srv ctx w (Id' data) = Some err \<and> checkErr err errTokenExists
      \<and> deadline ctx < clock w + sleepSeconds"
  then have "select_Done_After tie ctx (called w) =
      (Done, w\<lparr>clock := max (deadline ctx) (clock w), calls := calls w + 1\<rparr>)"
    by (simp add: select_Done called_def)
  with a show "snd (delete_loop srv tie ctx data w) =
      w\<lparr>clock := max (deadline ctx) (clock w), calls := calls w + 1\<rparr>"
    by (simp add: delete_loop_transient)
qed


theorem delete_transition_witness:
  "delete_loop (stub_Service 0 TokenStillPresentError ''x'') True \<lparr>deadline = 300 * Second\<rparr>
       (example_model no_timeouts) world0 =
     (\<lparr>Diagnostics = [], State = None\<rparr>, \<lparr>clock = 0, calls = 1, sleeps = 0\<rparr>)
   \<and> delete_loop (stub_Service 1 (GoogleApiError 403 ''Forbidden'') ''x'') True
       \<lparr>deadline = 300 * Second\<rparr> (example_model no_timeouts) world0 =
     (\<lparr>Diagnostics = [AddError ''Client Error''
          ''Unable to delete verification, got error: %s''
          [Err (GoogleApiError 403 ''Forbidden'')]],
        State = None\<rparr>, \<lparr>clock = 0, calls = 1, sleeps = 0\<rparr>)
   \<and> delete_loop (stub_Service 1 TokenStillPresentError ''x'') True \<lparr>deadline = 300 * Second\<rparr>
       (example_model no_timeouts) world0 =
     (\<lparr>Diagnostics = [], State = None\<rparr>, \<lparr>clock = 60 * Second, calls = 2, sleeps = 1\<rparr>)
   \<and> snd (delete_loop (stub_Service 1 TokenStillPresentError ''x'') True
       \<lparr>deadline = 30 * Second\<rparr> (example_model no_timeouts) world0) =
     \<lparr>clock = 30 * Second, calls = 1, sleeps = 0\<rparr>"
proof -
  let ?m = "example_model no_timeouts"
  let ?long = "\<lparr>deadline = 300 * Second\<rparr>"
  let ?w1 = "\<lparr>clock = 60 * Second, calls = 1, sleeps = 1\<rparr>"
  have perm: "\<not> checkErr (GoogleApiError 403 ''Forbidden'') errTokenExists"
    by (simp add: checkErr_def)
  have 1: "delete_loop (stub_Service 0 TokenStillPresentError ''x'') True ?long ?m world0 =
     (\<lparr>Diagnostics = [], State = None\<rparr>, \<lparr>clock = 0, calls = 1, sleeps = 0\<rparr>)"
    using delete_transition
      [where srv = "stub_Service 0 TokenStillPresentError ''x''" and w = world0 and data = ?m
        and tie = True and ctx = ?long]
    by (simp add: stub_Service_def world0_def)
  have 2: "delete_loop (stub_Service 1 (GoogleApiError 403 ''Forbidden'') ''x'') True ?long ?m
       world0 =
     (\<lparr>Diagnostics = [AddError ''Client Error''
          ''Unable to delete verification, got error: %s''
          [Err (GoogleApiError 403 ''Forbidden'')]],
        State = None\<rparr>, \<lparr>clock = 0, calls = 1, sleeps = 0\<rparr>)"
    using perm delete_transition
      [where srv = "stub_Service 1 (GoogleApiError 403 ''Forbidden'') ''x''" and w = world0
        and data = ?m and tie = True and ctx = ?long and err = "GoogleApiError 403 ''Forbidden''"]
    by (simp add: stub_Service_def world0_def)
  have "delete_loop (stub_Service 1 TokenStillPresentError ''x'') True ?long ?m world0 =
      delete_loop (stub_Service 1 TokenStillPresentError ''x'') True ?long ?m ?w1"
    using checkErr_TokenStillPresentError delete_transition
      [where srv = "stub_Service 1 TokenStillPresentError ''x''" and w = world0
        and data = ?m and tie = True and ctx = ?long and err = TokenStillPresentError]
    by (simp add: stub_Service_def world0_def sleepSeconds_def Second_def)
  moreover have "delete_loop (stub_Service 1 TokenStillPresentError ''x'') True ?long ?m ?w1 =
     (\<lparr>Diagnostics = [], State = None\<rparr>, \<lparr>clock = 60 * Second, calls = 2, sleeps = 1\<rparr>)"
    using delete_transition
      [where srv = "stub_Service 1 TokenStillPresentError ''x''" and w = ?w1 and data = ?m
        and tie = True and ctx = ?long]
    by (simp add: stub_Service_def)
  ultimately have 3: "delete_loop (stub_Service 1 TokenStillPresentError ''x'') True ?long ?m
       world0 =
     (\<lparr>Diagnostics = [], State = None\<rparr>, \<lparr>clock = 60 * Second, calls = 2, sleeps = 1\<rparr>)"
    by simp
  have 4: "snd (delete_loop (stub_Service 1 TokenStillPresentError ''x'') True
       \<lparr>deadline = 30 * Second\<rparr> ?m world0) = \<lparr>clock = 30 * Second, calls = 1, sleeps = 0\<rparr>"
    using checkErr_TokenStillPresentError delete_transition
      [where srv = "stub_Service 1 TokenStillPresentError ''x''" and w = world0
        and data = ?m and tie = True and ctx = "\<lparr>deadline = 30 * Second\<rparr>"
        and err = TokenStillPresentError]
    by (simp add: stub_Service_def world0_def sleepSeconds_def Second_def)
  from 1 2 3 4 show ?thesis by blast
qed

subsection \<open>Timeouts\<close>



end
